theory Spec2Isabelle
  imports Complex_Main "HOL-Library.Sublist"
begin

section \<open>Mofa's Kitchen Buddy: a shallow embedding of \<open>main.py\<close>\<close>

text \<open>
  The program is a FastAPI application over an SQLite database (two tables, reached
  through an SQLAlchemy session), one text file \<open>recipes/my_fav_recipes.txt\<close>, and an OCR
  engine. Every endpoint is modelled as a function that takes its request, the database
  session \<open>db\<close> it gets from \<open>get_db\<close>, and (where the endpoint touches them) the state of
  the file system and of the OCR engine, and returns its result together with the new
  state. A raised exception is the \<open>Inl\<close> of the result.

  Python strings are modelled as HOL strings (lists of 8-bit characters); \<open>lower\<close>
  lowercases the letters \<open>A\<close>..\<open>Z\<close>, which is what \<open>str.lower\<close> does on ASCII text.
\<close>

subsection \<open>Strings\<close>

definition NL :: char where
  "NL = CHR 0x0A"

definition lower_char :: "char \<Rightarrow> char" where
  "lower_char c =
     (let n = (of_char c :: nat) in if 65 \<le> n \<and> n \<le> 90 then char_of (n + 32) else c)"

text \<open>\<open>s.lower()\<close>\<close>

definition lower :: "string \<Rightarrow> string" where
  "lower s = map lower_char s"

text \<open>\<open>s.startswith(p)\<close>\<close>

fun startswith :: "string \<Rightarrow> string \<Rightarrow> bool" where
  "startswith s [] = True"
| "startswith [] (p # ps) = False"
| "startswith (c # cs) (p # ps) = (c = p \<and> startswith cs ps)"

text \<open>\<open>sub in s\<close>: the substring test, tried at every position of \<open>s\<close> from the left.\<close>

fun contains :: "string \<Rightarrow> string \<Rightarrow> bool" where
  "contains sub [] = (sub = [])"
| "contains sub (c # cs) = (startswith (c # cs) sub \<or> contains sub cs)"

text \<open>
  \<open>s.split(sep)\<close> for a one-character separator: one piece more than there are
  separators, empty pieces kept, so the result is never empty.
\<close>

fun split :: "char \<Rightarrow> string \<Rightarrow> string list" where
  "split sep [] = [[]]"
| "split sep (c # cs) =
     (if c = sep then [] # split sep cs
      else (case split sep cs of
              [] \<Rightarrow> [[c]]
            | piece # pieces \<Rightarrow> (c # piece) # pieces))"

text \<open>\<open>sep.join(xs)\<close>\<close>

fun join :: "string \<Rightarrow> string list \<Rightarrow> string" where
  "join sep [] = []"
| "join sep [x] = x"
| "join sep (x # y # ys) = x @ sep @ join sep (y # ys)"

text \<open>\<open>str(i)\<close> for an integer: its decimal digits, after a minus sign when negative.\<close>

fun digits :: "nat \<Rightarrow> string" where
  "digits n =
     (if n < 10 then [char_of (48 + n)] else digits (n div 10) @ [char_of (48 + n mod 10)])"

definition str_int :: "int \<Rightarrow> string" where
  "str_int i = (if i < 0 then CHR ''-'' # digits (nat (- i)) else digits (nat i))"

text \<open>
  What an f-string prints for an optional string: the string itself, or \<open>None\<close>.
\<close>

definition str_opt :: "string option \<Rightarrow> string" where
  "str_opt v = (case v of None \<Rightarrow> ''None'' | Some s \<Rightarrow> s)"

text \<open>\<open>s.strip()\<close>: the ASCII white space of \<open>str.isspace\<close> removed at both ends.\<close>

definition isspace :: "char \<Rightarrow> bool" where
  "isspace c = (let n = (of_char c :: nat) in (9 \<le> n \<and> n \<le> 13) \<or> (28 \<le> n \<and> n \<le> 32))"

definition strip :: "string \<Rightarrow> string" where
  "strip s = rev (dropWhile isspace (rev (dropWhile isspace s)))"

subsection \<open>Exceptions\<close>

text \<open>
  The exceptions the program meets. An \<open>HTTPException\<close> carries its status code and its
  detail; a detail is a literal text, \<open>str(e)\<close> of a caught exception, or a literal text
  followed by \<open>str(e)\<close> (the f-string of \<open>process_recipe_image\<close>).
\<close>

datatype py_exception =
    IntegrityError
  | OSError
  | FileNotFoundError
  | AttributeError
  | UnidentifiedImageError
  | TesseractError
  | HTTPException nat detail
and detail =
    Text string
  | Str py_exception
  | TextStr string py_exception

subsection \<open>Database models and request schemas\<close>

text \<open>
  A \<open>DateTime\<close> is an abstract point in time; \<open>datetime.utcnow()\<close> is the argument \<open>now\<close>
  of the endpoints that call it. A \<open>Float\<close> is carried, never computed with. The two
  models share the column names \<open>id\<close> and \<open>name\<close>, so every field has its model's prefix.
  Only \<open>id\<close> is a primary key; every other column of \<open>ingredients\<close> is nullable, and the
  update endpoint can store a null in each of them.
\<close>

type_synonym datetime = nat

record Ingredient =
  ing_id :: int
  ing_name :: "string option"
  ing_quantity :: "real option"
  ing_unit :: "string option"
  ing_category :: "string option"
  ing_expiry_date :: "datetime option"
  ing_last_updated :: datetime

record Recipe =
  rec_id :: int
  rec_name :: string
  rec_cuisine_type :: string
  rec_preparation_time :: int
  rec_difficulty_level :: "string option"
  rec_taste_profile :: string
  rec_instructions :: string
  rec_ingredients_list :: string
  rec_created_at :: datetime

record IngredientCreate =
  ic_name :: string
  ic_quantity :: real
  ic_unit :: string
  ic_category :: "string option"
  ic_expiry_date :: "datetime option"

text \<open>
  \<open>IngredientUpdate\<close>: every field is optional, and \<open>dict(exclude_unset=True)\<close> keeps
  the fields the request set. A field is \<open>None\<close> when the request left it unset, and
  \<open>Some v\<close> when the request set it to \<open>v\<close>, where \<open>v\<close> may be the null value.
\<close>

record IngredientUpdate =
  iu_name :: "string option option"
  iu_quantity :: "real option option"
  iu_unit :: "string option option"
  iu_category :: "string option option"
  iu_expiry_date :: "datetime option option"

text \<open>
  \<open>RecipeCreate\<close>: \<open>difficulty_level\<close> is \<open>None\<close> when the request left it unset, and
  \<open>Some v\<close> when the request set it (\<open>v\<close> may be null); the other fields are required.
\<close>

record RecipeCreate =
  rc_name :: string
  rc_cuisine_type :: string
  rc_preparation_time :: int
  rc_difficulty_level :: "string option option"
  rc_taste_profile :: string
  rc_instructions :: string
  rc_ingredients_list :: string

subsection \<open>The database session\<close>

text \<open>
  A table is the list of its rows in rowid order, which is the order SQLite scans it in
  and the order the rows were inserted in. A session holds the committed state of the
  database and its own pending state: \<open>db.add\<close> and attribute assignments change the
  pending state, \<open>db.commit()\<close> writes it when the constraints hold and raises
  \<open>IntegrityError\<close> otherwise, \<open>db.rollback()\<close> discards it.
\<close>

record database =
  ingredients :: "Ingredient list"
  recipes :: "Recipe list"

record Session =
  committed :: database
  pending :: database

text \<open>\<open>get_db\<close>: a new session on the database, closed after the request.\<close>

definition get_db :: "database \<Rightarrow> Session" where
  "get_db store = \<lparr>committed = store, pending = store\<rparr>"

definition request :: "(Session \<Rightarrow> 'a \<times> Session) \<Rightarrow> database \<Rightarrow> 'a \<times> database" where
  "request handler store = (case handler (get_db store) of (r, db) \<Rightarrow> (r, committed db))"

text \<open>The integer primary key of a new row: one more than the largest in the table.\<close>

definition next_id :: "int list \<Rightarrow> int" where
  "next_id ids = fold max ids 0 + 1"

text \<open>\<open>unique=True\<close> on \<open>Ingredient.name\<close>: no two rows share a name that is not null.\<close>

definition unique_names :: "Ingredient list \<Rightarrow> bool" where
  "unique_names rows = distinct (filter (\<lambda>n. n \<noteq> None) (map ing_name rows))"

definition db_commit :: "Session \<Rightarrow> (py_exception + unit) \<times> Session" where
  "db_commit db =
     (if unique_names (ingredients (pending db))
      then (Inr (), db\<lparr>committed := pending db\<rparr>)
      else (Inl IntegrityError, db))"

definition db_rollback :: "Session \<Rightarrow> Session" where
  "db_rollback db = db\<lparr>pending := committed db\<rparr>"

definition db_add_ingredient :: "Ingredient \<Rightarrow> Session \<Rightarrow> Session" where
  "db_add_ingredient row db =
     db\<lparr>pending := (pending db)\<lparr>ingredients := ingredients (pending db) @ [row]\<rparr>\<rparr>"

definition db_add_recipe :: "Recipe \<Rightarrow> Session \<Rightarrow> Session" where
  "db_add_recipe row db =
     db\<lparr>pending := (pending db)\<lparr>recipes := recipes (pending db) @ [row]\<rparr>\<rparr>"

text \<open>
  \<open>query.offset(skip).limit(limit).all()\<close>: SQLite reads a negative \<open>OFFSET\<close> as zero
  and a negative \<open>LIMIT\<close> as no limit.
\<close>

definition offset_limit :: "int \<Rightarrow> int \<Rightarrow> 'a list \<Rightarrow> 'a list" where
  "offset_limit skip limit rows =
     (if limit < 0 then drop (nat skip) rows else take (nat limit) (drop (nat skip) rows))"

subsection \<open>The file system and the OCR engine\<close>

text \<open>
  What the endpoints see of the world outside the database: the contents of
  \<open>recipes/my_fav_recipes.txt\<close> (\<open>None\<close> when the file does not exist), whether the
  directory and the file can be written (when not, creating or opening them for writing
  raises \<open>OSError\<close>), and how many times the recognition engine has been invoked.
\<close>

record world =
  recipe_file :: "string option"
  writable :: bool
  ocr_calls :: nat

definition header :: string where
  "header = ''# Mofa's Kitchen Buddy - Recipe Collection'' @ [NL, NL]"

definition ensure_recipe_directory :: "world \<Rightarrow> (py_exception + unit) \<times> world" where
  "ensure_recipe_directory w =
     (case recipe_file w of
        Some text \<Rightarrow> (Inr (), w)
      | None \<Rightarrow>
          if writable w then (Inr (), w\<lparr>recipe_file := Some header\<rparr>)
          else (Inl OSError, w))"

text \<open>
  \<open>with open("recipes/my_fav_recipes.txt", "a") as f\<close> and the writes of its body, whose
  texts are concatenated in \<open>text\<close>.
\<close>

definition file_append :: "string \<Rightarrow> world \<Rightarrow> (py_exception + unit) \<times> world" where
  "file_append text w =
     (if writable w
      then (Inr (),
            w\<lparr>recipe_file := Some ((case recipe_file w of None \<Rightarrow> [] | Some old \<Rightarrow> old) @ text)\<rparr>)
      else (Inl OSError, w))"

text \<open>The eight writes of \<open>save_recipe_to_file\<close>, in order.\<close>

definition recipe_block :: "Recipe \<Rightarrow> string" where
  "recipe_block recipe =
     [NL] @ ''RECIPE: '' @ rec_name recipe @ [NL]
     @ ''Cuisine: '' @ rec_cuisine_type recipe @ [NL]
     @ ''Prep Time: '' @ str_int (rec_preparation_time recipe) @ '' minutes'' @ [NL]
     @ ''Difficulty: '' @ str_opt (rec_difficulty_level recipe) @ [NL]
     @ ''Taste: '' @ rec_taste_profile recipe @ [NL]
     @ ''Ingredients:'' @ [NL] @ rec_ingredients_list recipe @ [NL]
     @ ''Instructions:'' @ [NL] @ rec_instructions recipe @ [NL]
     @ replicate 50 (CHR ''-'') @ [NL]"

definition save_recipe_to_file :: "Recipe \<Rightarrow> world \<Rightarrow> (py_exception + unit) \<times> world" where
  "save_recipe_to_file recipe w =
     (case ensure_recipe_directory w of
        (Inl e, w1) \<Rightarrow> (Inl e, w1)
      | (Inr u, w1) \<Rightarrow> file_append (recipe_block recipe) w1)"

text \<open>
  \<open>process_recipe_image\<close>: \<open>image_to_string\<close> stands for \<open>pytesseract.image_to_string\<close>,
  which returns the text or raises; each call of it is counted.
\<close>

definition process_recipe_image ::
  "('img \<Rightarrow> py_exception + string) \<Rightarrow> 'img \<Rightarrow> world \<Rightarrow> (py_exception + string) \<times> world" where
  "process_recipe_image image_to_string img w =
     (let w1 = w\<lparr>ocr_calls := ocr_calls w + 1\<rparr> in
      case image_to_string img of
        Inr text \<Rightarrow> (Inr (strip text), w1)
      | Inl e \<Rightarrow> (Inl (HTTPException 400 (TextStr ''Failed to process image: '' e)), w1))"

subsection \<open>Ingredient routes\<close>

definition new_ingredient :: "IngredientCreate \<Rightarrow> datetime \<Rightarrow> Session \<Rightarrow> Ingredient" where
  "new_ingredient ingredient now db =
     \<lparr>ing_id = next_id (map ing_id (ingredients (pending db))),
      ing_name = Some (ic_name ingredient),
      ing_quantity = Some (ic_quantity ingredient),
      ing_unit = Some (ic_unit ingredient),
      ing_category = ic_category ingredient,
      ing_expiry_date = ic_expiry_date ingredient,
      ing_last_updated = now\<rparr>"

definition create_ingredient ::
  "IngredientCreate \<Rightarrow> datetime \<Rightarrow> Session \<Rightarrow> (py_exception + Ingredient) \<times> Session" where
  "create_ingredient ingredient now db =
     (let db_ingredient = new_ingredient ingredient now db;
          db1 = db_add_ingredient db_ingredient db
      in case db_commit db1 of
           (Inr u, db2) \<Rightarrow> (Inr db_ingredient, db2)
         | (Inl e, db2) \<Rightarrow> (Inl (HTTPException 400 (Str e)), db_rollback db2))"

text \<open>\<open>if category:\<close> and \<open>if cuisine_type:\<close>: neither \<open>None\<close> nor the empty string.\<close>

definition truthy :: "string option \<Rightarrow> bool" where
  "truthy v = (case v of None \<Rightarrow> False | Some s \<Rightarrow> s \<noteq> [])"

definition list_ingredients ::
  "int \<Rightarrow> int \<Rightarrow> string option \<Rightarrow> Session \<Rightarrow> Ingredient list \<times> Session" where
  "list_ingredients skip limit category db =
     (let query = ingredients (pending db);
          query1 = (if truthy category
                    then filter (\<lambda>row. ing_category row = category) query
                    else query)
      in (offset_limit skip limit query1, db))"

text \<open>The \<open>setattr\<close> loop over \<open>ingredient.dict(exclude_unset=True)\<close>.\<close>

definition setattrs :: "IngredientUpdate \<Rightarrow> Ingredient \<Rightarrow> Ingredient" where
  "setattrs update_data row =
     row\<lparr>ing_name := (case iu_name update_data of None \<Rightarrow> ing_name row | Some v \<Rightarrow> v),
         ing_quantity :=
           (case iu_quantity update_data of None \<Rightarrow> ing_quantity row | Some v \<Rightarrow> v),
         ing_unit := (case iu_unit update_data of None \<Rightarrow> ing_unit row | Some v \<Rightarrow> v),
         ing_category :=
           (case iu_category update_data of None \<Rightarrow> ing_category row | Some v \<Rightarrow> v),
         ing_expiry_date :=
           (case iu_expiry_date update_data of None \<Rightarrow> ing_expiry_date row | Some v \<Rightarrow> v)\<rparr>"

text \<open>
  The row fetched by \<open>first()\<close> is an object of the session: assigning to its attributes
  changes the pending row with its primary key.
\<close>

definition db_set_ingredient :: "Ingredient \<Rightarrow> Session \<Rightarrow> Session" where
  "db_set_ingredient row db =
     db\<lparr>pending := (pending db)\<lparr>ingredients :=
       map (\<lambda>r. if ing_id r = ing_id row then row else r) (ingredients (pending db))\<rparr>\<rparr>"

definition db_delete_ingredient :: "Ingredient \<Rightarrow> Session \<Rightarrow> Session" where
  "db_delete_ingredient row db =
     db\<lparr>pending := (pending db)\<lparr>ingredients :=
       filter (\<lambda>r. ing_id r \<noteq> ing_id row) (ingredients (pending db))\<rparr>\<rparr>"

definition update_ingredient ::
  "int \<Rightarrow> IngredientUpdate \<Rightarrow> datetime \<Rightarrow> Session \<Rightarrow> (py_exception + Ingredient) \<times> Session" where
  "update_ingredient ingredient_id ingredient now db =
     (case find (\<lambda>row. ing_id row = ingredient_id) (ingredients (pending db)) of
        None \<Rightarrow> (Inl (HTTPException 404 (Text ''Ingredient not found'')), db)
      | Some db_ingredient \<Rightarrow>
          (let updated = (setattrs ingredient db_ingredient)\<lparr>ing_last_updated := now\<rparr>;
               db1 = db_set_ingredient updated db
           in case db_commit db1 of
                (Inr u, db2) \<Rightarrow> (Inr updated, db2)
              | (Inl e, db2) \<Rightarrow> (Inl (HTTPException 400 (Str e)), db_rollback db2)))"

definition delete_ingredient :: "int \<Rightarrow> Session \<Rightarrow> (py_exception + string) \<times> Session" where
  "delete_ingredient ingredient_id db =
     (case find (\<lambda>row. ing_id row = ingredient_id) (ingredients (pending db)) of
        None \<Rightarrow> (Inl (HTTPException 404 (Text ''Ingredient not found'')), db)
      | Some db_ingredient \<Rightarrow>
          (case db_commit (db_delete_ingredient db_ingredient db) of
             (Inr u, db2) \<Rightarrow> (Inr ''Ingredient deleted successfully'', db2)
           | (Inl e, db2) \<Rightarrow> (Inl (HTTPException 400 (Str e)), db_rollback db2)))"

subsection \<open>Recipe routes\<close>

text \<open>
  \<open>Recipe(**recipe.dict())\<close>: \<open>dict()\<close> fills the default \<open>"Medium"\<close> in when the request
  left \<open>difficulty_level\<close> unset; the key and \<open>created_at\<close> are set when the row is
  written.
\<close>

definition new_recipe :: "RecipeCreate \<Rightarrow> datetime \<Rightarrow> Session \<Rightarrow> Recipe" where
  "new_recipe recipe now db =
     \<lparr>rec_id = next_id (map rec_id (recipes (pending db))),
      rec_name = rc_name recipe,
      rec_cuisine_type = rc_cuisine_type recipe,
      rec_preparation_time = rc_preparation_time recipe,
      rec_difficulty_level =
        (case rc_difficulty_level recipe of None \<Rightarrow> Some ''Medium'' | Some v \<Rightarrow> v),
      rec_taste_profile = rc_taste_profile recipe,
      rec_instructions = rc_instructions recipe,
      rec_ingredients_list = rc_ingredients_list recipe,
      rec_created_at = now\<rparr>"

text \<open>
  The file is written inside the same \<open>try\<close> as the commit, after it: when the write
  raises, \<open>db.rollback()\<close> runs on a session whose transaction is already committed.
\<close>

definition create_recipe ::
  "RecipeCreate \<Rightarrow> datetime \<Rightarrow> Session \<Rightarrow> world
     \<Rightarrow> (py_exception + Recipe) \<times> Session \<times> world" where
  "create_recipe recipe now db w =
     (let db_recipe = new_recipe recipe now db;
          db1 = db_add_recipe db_recipe db
      in case db_commit db1 of
           (Inl e, db2) \<Rightarrow> (Inl (HTTPException 400 (Str e)), db_rollback db2, w)
         | (Inr u, db2) \<Rightarrow>
             (case save_recipe_to_file db_recipe w of
                (Inl e, w1) \<Rightarrow> (Inl (HTTPException 400 (Str e)), db_rollback db2, w1)
              | (Inr u1, w1) \<Rightarrow> (Inr db_recipe, db2, w1)))"

definition list_recipes ::
  "int \<Rightarrow> int \<Rightarrow> string option \<Rightarrow> Session \<Rightarrow> Recipe list \<times> Session" where
  "list_recipes skip limit cuisine_type db =
     (let query = recipes (pending db);
          query1 = (if truthy cuisine_type
                    then filter (\<lambda>row. Some (rec_cuisine_type row) = cuisine_type) query
                    else query)
      in (offset_limit skip limit query1, db))"

record UploadFile =
  content_type :: "string option"
  contents :: string

record UploadResponse =
  up_message :: string
  up_extracted_text :: string

definition image_block :: "string \<Rightarrow> string" where
  "image_block text =
     [NL] @ ''RECIPE FROM IMAGE:'' @ [NL] @ text @ [NL] @ replicate 50 (CHR ''-'') @ [NL]"

text \<open>
  \<open>upload_recipe_image\<close>: \<open>Image_open\<close> stands for \<open>Image.open(io.BytesIO(contents))\<close>. A
  part without a content type has \<open>content_type\<close> \<open>None\<close>, and \<open>startswith\<close> on it raises
  \<open>AttributeError\<close> outside the \<open>try\<close>. Inside the \<open>try\<close> every exception, the
  \<open>HTTPException\<close> of \<open>process_recipe_image\<close> too, is caught and raised again as a 400.
\<close>

definition upload_recipe_image ::
  "(string \<Rightarrow> py_exception + 'img) \<Rightarrow> ('img \<Rightarrow> py_exception + string) \<Rightarrow> UploadFile \<Rightarrow> world
     \<Rightarrow> (py_exception + UploadResponse) \<times> world" where
  "upload_recipe_image Image_open image_to_string file w =
     (case content_type file of
        None \<Rightarrow> (Inl AttributeError, w)
      | Some ct \<Rightarrow>
          if \<not> startswith ct ''image/''
          then (Inl (HTTPException 400 (Text ''File must be an image'')), w)
          else
            (case Image_open (contents file) of
               Inl e \<Rightarrow> (Inl (HTTPException 400 (Str e)), w)
             | Inr img \<Rightarrow>
                 (case process_recipe_image image_to_string img w of
                    (Inl e, w1) \<Rightarrow> (Inl (HTTPException 400 (Str e)), w1)
                  | (Inr text, w1) \<Rightarrow>
                      (case ensure_recipe_directory w1 of
                         (Inl e, w2) \<Rightarrow> (Inl (HTTPException 400 (Str e)), w2)
                       | (Inr u, w2) \<Rightarrow>
                           (case file_append (image_block text) w2 of
                              (Inl e, w3) \<Rightarrow> (Inl (HTTPException 400 (Str e)), w3)
                            | (Inr u1, w3) \<Rightarrow>
                                (Inr \<lparr>up_message = ''Recipe image processed and saved successfully'',
                                      up_extracted_text = text\<rparr>, w3))))))"

subsection \<open>Chatbot route\<close>

definition sweet_prefix :: string where
  "sweet_prefix =
     ''Based on your available ingredients, here are some sweet recipes you might like to try:''
     @ [NL]"

definition spicy_prefix :: string where
  "spicy_prefix = ''I found these spicy recipes that match your ingredients:'' @ [NL]"

definition fallback :: string where
  "fallback =
     ''I can help you find recipes based on your preferences and available ingredients. ''
     @ ''Would you like something sweet, spicy, or should I list your available ingredients?''"

text \<open>
  The response logic of \<open>chat_with_bot\<close> (from \<open>msg = message.message.lower()\<close> to the
  last \<open>return\<close>), as a function of the message, the lowercased ingredient names and the
  text of the recipe file (the variable \<open>recipes\<close> of the source).
\<close>

definition respond :: "string \<Rightarrow> string list \<Rightarrow> string \<Rightarrow> string" where
  "respond message ingredient_names recipes_text =
     (let msg = lower message in
      if contains ''sweet'' msg then
        sweet_prefix
        @ concat (take 3 (filter (\<lambda>line. contains ''sweet'' (lower line)) (split NL recipes_text)))
      else if contains ''spicy'' msg then
        spicy_prefix
        @ concat (take 3 (filter (\<lambda>line. contains ''spicy'' (lower line)) (split NL recipes_text)))
      else if contains ''available'' msg \<or> contains ''ingredients'' msg then
        ''You currently have: '' @ join '', '' ingredient_names
      else fallback)"

text \<open>
  \<open>[ing.name.lower() for ing in available_ingredients]\<close>: a null name has no \<open>lower\<close>.
\<close>

fun lower_names :: "Ingredient list \<Rightarrow> py_exception + string list" where
  "lower_names [] = Inr []"
| "lower_names (ing # rest) =
     (case ing_name ing of
        None \<Rightarrow> Inl AttributeError
      | Some n \<Rightarrow>
          (case lower_names rest of
             Inl e \<Rightarrow> Inl e
           | Inr names \<Rightarrow> Inr (lower n # names)))"

definition chat_with_bot ::
  "string \<Rightarrow> Session \<Rightarrow> world \<Rightarrow> (py_exception + string) \<times> Session \<times> world" where
  "chat_with_bot message db w =
     (case lower_names (ingredients (pending db)) of
        Inl e \<Rightarrow> (Inl (HTTPException 500 (Str e)), db, w)
      | Inr ingredient_names \<Rightarrow>
          (case recipe_file w of
             None \<Rightarrow> (Inl (HTTPException 500 (Str FileNotFoundError)), db, w)
           | Some recipes_text \<Rightarrow> (Inr (respond message ingredient_names recipes_text), db, w)))"

subsection \<open>Containing a keyword, whatever the case\<close>

text \<open>
  The specification's words for the tests of the chatbot: a text contains a keyword
  case-insensitively when some piece of consecutive characters of the text is the
  keyword once lowercased. The keywords of the program are lowercase. The program tests
  \<open>keyword in text.lower()\<close>; lemma \<open>mentions_code\<close> below shows that the two agree.
\<close>

definition mentions :: "string \<Rightarrow> string \<Rightarrow> bool" where
  "mentions keyword s = (\<exists>w. sublist w s \<and> lower w = keyword)"

subsection \<open>Example states\<close>

text \<open>Concrete rows, a store, a recipe file and requests, for evaluating the endpoints.\<close>

definition ex_salt :: Ingredient where
  "ex_salt =
     \<lparr>ing_id = 1, ing_name = Some ''Salt'', ing_quantity = Some 2.5, ing_unit = Some ''kg'',
      ing_category = Some ''spice'', ing_expiry_date = None, ing_last_updated = 10\<rparr>"

definition ex_sugar :: Ingredient where
  "ex_sugar =
     \<lparr>ing_id = 2, ing_name = Some ''Brown Sugar'', ing_quantity = Some 1, ing_unit = Some ''kg'',
      ing_category = Some [], ing_expiry_date = Some 99, ing_last_updated = 11\<rparr>"

definition ex_store :: database where
  "ex_store = \<lparr>ingredients = [ex_salt, ex_sugar], recipes = []\<rparr>"

definition ex_log :: string where
  "ex_log =
     ''Taste: Sweet'' @ [NL] @ ''Taste: Spicy'' @ [NL] @ ''sweet sour'' @ [NL]
     @ ''so SWEET'' @ [NL] @ ''sweet 4'' @ [NL]"

definition ex_world :: world where
  "ex_world = \<lparr>recipe_file = Some ex_log, writable = True, ocr_calls = 0\<rparr>"

definition ex_salt_again :: IngredientCreate where
  "ex_salt_again =
     \<lparr>ic_name = ''Salt'', ic_quantity = 5, ic_unit = ''g'', ic_category = None,
      ic_expiry_date = None\<rparr>"

definition ex_update :: IngredientUpdate where
  "ex_update =
     \<lparr>iu_name = None, iu_quantity = Some (Some 3), iu_unit = None, iu_category = Some None,
      iu_expiry_date = None\<rparr>"

definition ex_kheer :: RecipeCreate where
  "ex_kheer =
     \<lparr>rc_name = ''Kheer'', rc_cuisine_type = ''Bengali'', rc_preparation_time = 45,
      rc_difficulty_level = None, rc_taste_profile = ''Sweet'', rc_instructions = ''Boil.'',
      rc_ingredients_list = ''rice, milk''\<rparr>"

definition ex_text_file :: UploadFile where
  "ex_text_file = \<lparr>content_type = Some ''text/plain'', contents = ''hello''\<rparr>"

section \<open>Properties\<close>

subsection \<open>Strings\<close>

lemma startswith_prefix: "startswith s p = prefix p s"
  by (induction s p rule: startswith.induct) auto

lemma contains_sublist: "contains sub s = sublist sub s"
  by (induction s) (auto simp: startswith_prefix sublist_Cons_right)

lemma sublist_map_iff: "sublist w (map f s) = (\<exists>v. sublist v s \<and> map f v = w)"
  by (metis sublist_map_rightE map_mono_sublist)

lemma mentions_code [code]: "mentions keyword s = contains keyword (lower s)"
  by (simp add: mentions_def contains_sublist lower_def sublist_map_iff)

lemma mentions_fun: "mentions keyword = (\<lambda>s. contains keyword (lower s))"
  by (rule ext) (rule mentions_code)

lemma split_nonempty: "split sep s \<noteq> []"
  by (induction s) (auto split: list.splits)

lemma join_cons: "ys \<noteq> [] \<Longrightarrow> join sep (x # ys) = x @ sep @ join sep ys"
  by (cases ys) auto

text \<open>Splitting loses nothing: joining the pieces with the separator gives the text back.\<close>

lemma join_split: "join [sep] (split sep s) = s"
proof (induction s)
  case Nil
  show ?case by simp
next
  case (Cons c cs)
  show ?case
  proof (cases "c = sep")
    case True
    then show ?thesis using Cons by (simp add: join_cons split_nonempty)
  next
    case False
    obtain l ls where sp: "split sep cs = l # ls"
      using split_nonempty[of sep cs] by (cases "split sep cs") auto
    show ?thesis using False Cons sp by (cases ls) auto
  qed
qed

text \<open>No piece holds the separator: the pieces of a split on newline are lines.\<close>

lemma split_no_sep: "l \<in> set (split sep s) \<Longrightarrow> sep \<notin> set l"
proof (induction s arbitrary: l)
  case Nil
  then show ?case by simp
next
  case (Cons c cs)
  obtain x xs where sp: "split sep cs = x # xs"
    using split_nonempty[of sep cs] by (cases "split sep cs") auto
  show ?case using Cons sp by (auto split: if_splits)
qed

lemma lower_names_named:
  "map ing_name rows = map Some ns \<Longrightarrow> lower_names rows = Inr (map lower ns)"
  by (induction rows arbitrary: ns) auto

subsection \<open>The chatbot\<close>

lemma respond_dispatch:
  "respond message names recipes_text =
     (if mentions ''sweet'' message then
        sweet_prefix @ concat (take 3 (filter (mentions ''sweet'') (split NL recipes_text)))
      else if mentions ''spicy'' message then
        spicy_prefix @ concat (take 3 (filter (mentions ''spicy'') (split NL recipes_text)))
      else if mentions ''available'' message \<or> mentions ''ingredients'' message then
        ''You currently have: '' @ join '', '' names
      else fallback)"
  by (simp add: respond_def Let_def mentions_fun del: contains.simps)

lemma respond_sweet:
  "mentions ''sweet'' message \<Longrightarrow>
   respond message names recipes_text =
     sweet_prefix @ concat (take 3 (filter (mentions ''sweet'') (split NL recipes_text)))"
  by (subst respond_dispatch) (rule if_P)

lemma chat_with_bot_respond:
  "lower_names (ingredients (pending db)) = Inr names \<Longrightarrow> recipe_file w = Some recipes_text \<Longrightarrow>
     chat_with_bot message db w = (Inr (respond message names recipes_text), db, w)"
  by (simp add: chat_with_bot_def)

lemma taken_line:
  assumes "line \<in> set (take n (filter P (split NL recipes_text)))"
  shows "P line \<and> line \<in> set (split NL recipes_text) \<and> NL \<notin> set line"
proof -
  from assms have "line \<in> set (filter P (split NL recipes_text))"
    by (rule in_set_takeD)
  then have 1: "P line" and 2: "line \<in> set (split NL recipes_text)"
    by simp_all
  from 2 have "NL \<notin> set line" by (rule split_no_sep)
  with 1 2 show ?thesis by blast
qed

lemma ex_names:
  "lower_names (ingredients (pending (get_db ex_store))) = Inr [''salt'', ''brown sugar'']"
proof -
  have "lower ''Salt'' = ''salt''" "lower ''Brown Sugar'' = ''brown sugar''" by code_simp+
  then show ?thesis by (simp add: get_db_def ex_store_def ex_salt_def ex_sugar_def)
qed

lemma ex_lines:
  "split NL ex_log =
     [''Taste: Sweet'', ''Taste: Spicy'', ''sweet sour'', ''so SWEET'', ''sweet 4'', []]"
  unfolding ex_log_def by code_simp

lemma ex_sweet:
  "filter (mentions ''sweet'') (split NL ex_log) =
     [''Taste: Sweet'', ''sweet sour'', ''so SWEET'', ''sweet 4'']"
  unfolding ex_lines by code_simp

text \<open>
  Claim C1. The chat responder is a function of the message, the ingredient names and the
  text of the recipe log: whenever the names and the log can be read, the endpoint returns
  \<open>respond\<close> of these three and leaves the database session and the world as they were.
  It picks its branch by precedence on the message, whatever its case: \<open>sweet\<close> first,
  then \<open>spicy\<close>, then \<open>available\<close> or \<open>ingredients\<close>, else one fixed fallback text.
\<close>

theorem chat_dispatch_precedence:
  "(lower_names (ingredients (pending db)) = Inr names \<and> recipe_file w = Some recipes_text \<longrightarrow>
      chat_with_bot message db w = (Inr (respond message names recipes_text), db, w)) \<and>
   respond message names recipes_text =
     (if mentions ''sweet'' message then
        sweet_prefix @ concat (take 3 (filter (mentions ''sweet'') (split NL recipes_text)))
      else if mentions ''spicy'' message then
        spicy_prefix @ concat (take 3 (filter (mentions ''spicy'') (split NL recipes_text)))
      else if mentions ''available'' message \<or> mentions ''ingredients'' message then
        ''You currently have: '' @ join '', '' names
      else fallback)"
proof (intro conjI impI)
  assume "lower_names (ingredients (pending db)) = Inr names \<and>
    recipe_file w = Some recipes_text"
  then show "chat_with_bot message db w = (Inr (respond message names recipes_text), db, w)"
    by (simp add: chat_with_bot_respond)
next
  show "respond message names recipes_text =
     (if mentions ''sweet'' message then
        sweet_prefix @ concat (take 3 (filter (mentions ''sweet'') (split NL recipes_text)))
      else if mentions ''spicy'' message then
        spicy_prefix @ concat (take 3 (filter (mentions ''spicy'') (split NL recipes_text)))
      else if mentions ''available'' message \<or> mentions ''ingredients'' message then
        ''You currently have: '' @ join '', '' names
      else fallback)"
    by (rule respond_dispatch)
qed

theorem chat_dispatch_precedence_witness:
  "mentions ''sweet'' ''SPICY or Sweet?'' \<and>
   mentions ''spicy'' ''SPICY or Sweet?'' \<and>
   chat_with_bot ''SPICY or Sweet?'' (get_db ex_store) ex_world =
     (Inr (sweet_prefix @ ''Taste: Sweetsweet sourso SWEET''), get_db ex_store, ex_world)"
proof -
  have m: "mentions ''sweet'' ''SPICY or Sweet?''" "mentions ''spicy'' ''SPICY or Sweet?''"
    by code_simp+
  have f: "recipe_file ex_world = Some ex_log" by (simp add: ex_world_def)
  show ?thesis
    using chat_dispatch_precedence [of "get_db ex_store" "[''salt'', ''brown sugar'']" ex_world
        ex_log "''SPICY or Sweet?''"] m f ex_names ex_sweet
    by simp
qed

text \<open>
  Claim C2. For a message that contains \<open>sweet\<close>, whatever its case, the response is the
  sweet prefix followed by the first three at most of the lines of the recipe log (the
  pieces of its split on newline) that contain \<open>sweet\<close>, whatever its case, concatenated
  with nothing between them. So the response starts with the prefix, and it holds at most
  three lines, each a line of the log that contains \<open>sweet\<close>.
\<close>

theorem chat_sweet_response:
  assumes "mentions ''sweet'' message"
  shows "respond message names recipes_text =
           sweet_prefix @ concat (take 3 (filter (mentions ''sweet'') (split NL recipes_text))) \<and>
         prefix sweet_prefix (respond message names recipes_text) \<and>
         length (take 3 (filter (mentions ''sweet'') (split NL recipes_text))) \<le> 3 \<and>
         (\<forall>line \<in> set (take 3 (filter (mentions ''sweet'') (split NL recipes_text))).
            mentions ''sweet'' line \<and> line \<in> set (split NL recipes_text) \<and> NL \<notin> set line)"
proof (intro conjI ballI)
  show eq: "respond message names recipes_text =
      sweet_prefix @ concat (take 3 (filter (mentions ''sweet'') (split NL recipes_text)))"
    using assms by (rule respond_sweet)
  show "prefix sweet_prefix (respond message names recipes_text)"
    unfolding eq by (rule prefixI) (rule refl)
  show "length (take 3 (filter (mentions ''sweet'') (split NL recipes_text))) \<le> 3"
    by (rule length_take [THEN ord_eq_le_trans]) (rule min.cobounded2)
next
  fix line
  assume "line \<in> set (take 3 (filter (mentions ''sweet'') (split NL recipes_text)))"
  then have t: "mentions ''sweet'' line \<and> line \<in> set (split NL recipes_text) \<and> NL \<notin> set line"
    by (rule taken_line)
  from t show "mentions ''sweet'' line" by (rule conjunct1)
  from t show "line \<in> set (split NL recipes_text)" by blast
  from t show "NL \<notin> set line" by blast
qed

theorem chat_sweet_response_witness:
  "mentions ''sweet'' ''so Sweet!'' \<and>
   respond ''so Sweet!'' [''salt''] ex_log = sweet_prefix @ ''Taste: Sweetsweet sourso SWEET'' \<and>
   take 3 (filter (mentions ''sweet'') (split NL ex_log)) =
     [''Taste: Sweet'', ''sweet sour'', ''so SWEET'']"
proof -
  have m: "mentions ''sweet'' ''so Sweet!''" by code_simp
  have t: "take 3 (filter (mentions ''sweet'') (split NL ex_log)) =
     [''Taste: Sweet'', ''sweet sour'', ''so SWEET'']"
    unfolding ex_sweet by simp
  have c: "concat [''Taste: Sweet'', ''sweet sour'', ''so SWEET''] = ''Taste: Sweetsweet sourso SWEET''"
    by simp
  from chat_sweet_response [OF m, of "[''salt'']" ex_log]
  have "respond ''so Sweet!'' [''salt''] ex_log =
      sweet_prefix @ concat (take 3 (filter (mentions ''sweet'') (split NL ex_log)))"
    by (rule conjunct1)
  then have "respond ''so Sweet!'' [''salt''] ex_log = sweet_prefix @ ''Taste: Sweetsweet sourso SWEET''"
    unfolding t c .
  with m t show ?thesis by blast
qed

lemma respond_ingredients:
  "\<not> mentions ''sweet'' message \<Longrightarrow> \<not> mentions ''spicy'' message \<Longrightarrow>
   mentions ''available'' message \<or> mentions ''ingredients'' message \<Longrightarrow>
   respond message names recipes_text = ''You currently have: '' @ join '', '' names"
  by (subst respond_dispatch) (simp only: if_False if_True)

lemma ex_ingredients_msg:
  "\<not> mentions ''sweet'' ''Ingredients?''" "\<not> mentions ''spicy'' ''Ingredients?''"
  "mentions ''ingredients'' ''Ingredients?''"
  by code_simp+

lemma ex_stored_names:
  "map ing_name (ingredients ex_store) = map Some [''Salt'', ''Brown Sugar'']"
  by (simp add: ex_store_def ex_salt_def ex_sugar_def)

lemma ex_lower_names: "map lower [''Salt'', ''Brown Sugar''] = [''salt'', ''brown sugar'']"
  by code_simp

lemma ex_chat_ingredients:
  "chat_with_bot ''Ingredients?'' (get_db ex_store) ex_world =
     (Inr (''You currently have: '' @ join '', '' [''salt'', ''brown sugar'']),
      get_db ex_store, ex_world)"
proof -
  have f: "recipe_file ex_world = Some ex_log" by (simp add: ex_world_def)
  have "respond ''Ingredients?'' [''salt'', ''brown sugar''] ex_log =
      ''You currently have: '' @ join '', '' [''salt'', ''brown sugar'']"
    using ex_ingredients_msg(1,2) disjI2 [OF ex_ingredients_msg(3)]
    by (rule respond_ingredients)
  with chat_with_bot_respond [OF ex_names f, of "''Ingredients?''"] show ?thesis
    by (simp only:)
qed

text \<open>
  Claim C3, as stated, fails: the response is not the joined list alone, it is the text
  \<open>You currently have: \<close> followed by the list, and the names are joined by a comma and a
  space. With the two ingredients of the example store the response differs from the names
  joined by \<open>", "\<close> and from the names joined by \<open>","\<close>.
\<close>

theorem chat_ingredients_counterexample:
  "fst (chat_with_bot ''Ingredients?'' (get_db ex_store) ex_world)
     \<noteq> Inr (join '', '' (map lower [''Salt'', ''Brown Sugar'']))
   \<and> fst (chat_with_bot ''Ingredients?'' (get_db ex_store) ex_world)
     \<noteq> Inr (join '','' (map lower [''Salt'', ''Brown Sugar'']))"
  unfolding ex_chat_ingredients ex_lower_names by simp

text \<open>
  Claim C3, amended. For a message that contains \<open>available\<close> or \<open>ingredients\<close>, whatever
  its case, and neither \<open>sweet\<close> nor \<open>spicy\<close>, when every stored ingredient has a name and
  the recipe log can be read, the response is the text \<open>You currently have: \<close> followed by
  the lowercased names of all stored ingredients, in the order of the table, joined by a
  comma and a space; the session and the world are left as they were.
\<close>

theorem chat_ingredients_response:
  assumes "\<not> mentions ''sweet'' message" and "\<not> mentions ''spicy'' message"
    and "mentions ''available'' message \<or> mentions ''ingredients'' message"
    and "map ing_name (ingredients store) = map Some names"
    and "recipe_file w = Some recipes_text"
  shows "chat_with_bot message (get_db store) w =
           (Inr (''You currently have: '' @ join '', '' (map lower names)), get_db store, w)"
proof -
  have "ingredients (pending (get_db store)) = ingredients store"
    by (simp add: get_db_def)
  with assms(4) have "lower_names (ingredients (pending (get_db store))) = Inr (map lower names)"
    by (simp only: lower_names_named)
  then have "chat_with_bot message (get_db store) w =
      (Inr (respond message (map lower names) recipes_text), get_db store, w)"
    using assms(5) by (rule chat_with_bot_respond)
  moreover have "respond message (map lower names) recipes_text =
      ''You currently have: '' @ join '', '' (map lower names)"
    using assms(1-3) by (rule respond_ingredients)
  ultimately show ?thesis by (simp only:)
qed

theorem chat_ingredients_response_witness:
  "\<not> mentions ''sweet'' ''Ingredients?'' \<and> \<not> mentions ''spicy'' ''Ingredients?'' \<and>
   mentions ''ingredients'' ''Ingredients?'' \<and>
   chat_with_bot ''Ingredients?'' (get_db ex_store) ex_world =
     (Inr (''You currently have: '' @ ''salt, brown sugar''), get_db ex_store, ex_world)"
proof -
  have f: "recipe_file ex_world = Some ex_log" by (simp add: ex_world_def)
  have j: "join '', '' [''salt'', ''brown sugar''] = ''salt, brown sugar''" by simp
  from chat_ingredients_response [OF ex_ingredients_msg(1,2) disjI2 [OF ex_ingredients_msg(3)]
      ex_stored_names f]
  have "chat_with_bot ''Ingredients?'' (get_db ex_store) ex_world =
     (Inr (''You currently have: '' @ ''salt, brown sugar''), get_db ex_store, ex_world)"
    unfolding ex_lower_names j .
  with ex_ingredients_msg show ?thesis by blast
qed

subsection \<open>The ingredient routes\<close>

lemma duplicate_name_not_unique:
  "Some n \<in> set (map ing_name rows) \<Longrightarrow> ing_name row = Some n \<Longrightarrow>
   \<not> unique_names (rows @ [row])"
  by (auto simp: unique_names_def)

lemma commit_duplicate_name:
  assumes "Some (ic_name ingredient) \<in> set (map ing_name (ingredients store))"
  shows "db_commit (db_add_ingredient (new_ingredient ingredient now (get_db store)) (get_db store))
           = (Inl IntegrityError,
              db_add_ingredient (new_ingredient ingredient now (get_db store)) (get_db store))"
proof -
  have "ing_name (new_ingredient ingredient now (get_db store)) = Some (ic_name ingredient)"
    by (simp add: new_ingredient_def)
  with assms have "\<not> unique_names
      (ingredients store @ [new_ingredient ingredient now (get_db store)])"
    by (rule duplicate_name_not_unique)
  then show ?thesis
    by (simp add: db_commit_def db_add_ingredient_def get_db_def)
qed

lemma rollback_added: "db_rollback (db_add_ingredient row (get_db store)) = get_db store"
  by (simp add: db_rollback_def db_add_ingredient_def get_db_def)

text \<open>
  Claim C4. A creation request whose name is the name of a stored ingredient fails: the
  commit raises \<open>IntegrityError\<close> (the unique constraint on \<open>name\<close>), the endpoint rolls
  back and raises a 400, and the store after the request is the store before it. The
  session too is back in the state of a new session on that store.
\<close>

theorem create_ingredient_duplicate_name:
  assumes "Some (ic_name ingredient) \<in> set (map ing_name (ingredients store))"
  shows "create_ingredient ingredient now (get_db store) =
           (Inl (HTTPException 400 (Str IntegrityError)), get_db store) \<and>
         request (create_ingredient ingredient now) store =
           (Inl (HTTPException 400 (Str IntegrityError)), store)"
proof -
  have 1: "create_ingredient ingredient now (get_db store) =
      (Inl (HTTPException 400 (Str IntegrityError)), get_db store)"
    by (simp add: create_ingredient_def Let_def commit_duplicate_name [OF assms] rollback_added)
  then have "request (create_ingredient ingredient now) store =
      (Inl (HTTPException 400 (Str IntegrityError)), store)"
    by (simp add: request_def get_db_def)
  with 1 show ?thesis by (rule conjI)
qed

theorem create_ingredient_duplicate_name_witness:
  "Some (ic_name ex_salt_again) \<in> set (map ing_name (ingredients ex_store)) \<and>
   request (create_ingredient ex_salt_again 20) ex_store =
     (Inl (HTTPException 400 (Str IntegrityError)), ex_store)"
proof -
  have h: "Some (ic_name ex_salt_again) \<in> set (map ing_name (ingredients ex_store))"
    by (simp add: ex_salt_again_def ex_store_def ex_salt_def)
  from create_ingredient_duplicate_name [OF h, of 20]
  have "request (create_ingredient ex_salt_again 20) ex_store =
      (Inl (HTTPException 400 (Str IntegrityError)), ex_store)"
    by (rule conjunct2)
  with h show ?thesis by (rule conjI)
qed

text \<open>
  The other side of the constraint, for comparison: in a store whose names are unique, a
  request with a name that no stored ingredient has is committed, and the new row is the
  last of the table.
\<close>

lemma create_ingredient_new_name:
  assumes "unique_names (ingredients store)"
    and "Some (ic_name ingredient) \<notin> set (map ing_name (ingredients store))"
  shows "request (create_ingredient ingredient now) store =
           (Inr (new_ingredient ingredient now (get_db store)),
            store\<lparr>ingredients := ingredients store @ [new_ingredient ingredient now (get_db store)]\<rparr>)"
proof -
  have "unique_names (ingredients store @ [new_ingredient ingredient now (get_db store)])"
    using assms by (auto simp: unique_names_def new_ingredient_def)
  then show ?thesis
    by (simp add: request_def create_ingredient_def Let_def db_commit_def db_add_ingredient_def
        get_db_def)
qed

lemma list_ingredients_eq:
  "list_ingredients skip limit category (get_db store) =
     (offset_limit skip limit
        (if truthy category
         then filter (\<lambda>row. ing_category row = category) (ingredients store)
         else ingredients store),
      get_db store)"
  by (simp add: list_ingredients_def Let_def get_db_def)

lemma list_recipes_eq:
  "list_recipes skip limit cuisine_type (get_db store) =
     (offset_limit skip limit
        (if truthy cuisine_type
         then filter (\<lambda>row. Some (rec_cuisine_type row) = cuisine_type) (recipes store)
         else recipes store),
      get_db store)"
  by (simp add: list_recipes_def Let_def get_db_def)

lemma offset_limit_window:
  "0 \<le> limit \<Longrightarrow> offset_limit skip limit rows = take (nat limit) (drop (nat skip) rows)"
  by (simp add: offset_limit_def)

text \<open>
  Claim C6, as stated, fails for the filter value that is the empty string: \<open>if category:\<close>
  takes it for no filter. In the example store one ingredient has the category \<open>""\<close> and
  the other the category \<open>spice\<close>; listing with \<open>category=""\<close> returns both, not the one
  whose category equals the value.
\<close>

theorem list_filter_counterexample:
  "fst (list_ingredients 0 100 (Some []) (get_db ex_store)) = [ex_salt, ex_sugar] \<and>
   take 100 (drop 0 (filter (\<lambda>row. ing_category row = Some []) (ingredients ex_store))) = [ex_sugar] \<and>
   fst (list_ingredients 0 100 (Some []) (get_db ex_store))
     \<noteq> take 100 (drop 0 (filter (\<lambda>row. ing_category row = Some []) (ingredients ex_store)))"
  by (simp add: list_ingredients_eq offset_limit_def truthy_def ex_store_def ex_salt_def
      ex_sugar_def)

text \<open>
  Claim C6, amended. For skip and limit that are not negative, the list operations return
  the rows whose filter field equals the given value when the value is a string that is not
  empty, and all rows when no value is given or the value is the empty string; in the order
  of the table, without the first \<open>skip\<close> of them and at most \<open>limit\<close> of them. They leave
  the session as it was, so a second call with the same arguments returns the same rows.
\<close>

theorem list_window:
  assumes "0 \<le> skip" and "0 \<le> limit"
  shows "list_ingredients skip limit category (get_db store) =
           (take (nat limit) (drop (nat skip)
              (case category of
                 None \<Rightarrow> ingredients store
               | Some c \<Rightarrow>
                   if c = [] then ingredients store
                   else filter (\<lambda>row. ing_category row = Some c) (ingredients store))),
            get_db store) \<and>
         list_recipes skip limit cuisine_type (get_db store) =
           (take (nat limit) (drop (nat skip)
              (case cuisine_type of
                 None \<Rightarrow> recipes store
               | Some c \<Rightarrow>
                   if c = [] then recipes store
                   else filter (\<lambda>row. rec_cuisine_type row = c) (recipes store))),
            get_db store)"
proof (rule conjI)
  show "list_ingredients skip limit category (get_db store) =
           (take (nat limit) (drop (nat skip)
              (case category of
                 None \<Rightarrow> ingredients store
               | Some c \<Rightarrow>
                   if c = [] then ingredients store
                   else filter (\<lambda>row. ing_category row = Some c) (ingredients store))),
            get_db store)"
    using assms(2)
    by (cases category) (simp_all add: list_ingredients_eq offset_limit_window truthy_def)
  have "(\<lambda>row. Some (rec_cuisine_type row) = Some c) = (\<lambda>row. rec_cuisine_type row = c)" for c
    by simp
  then show "list_recipes skip limit cuisine_type (get_db store) =
           (take (nat limit) (drop (nat skip)
              (case cuisine_type of
                 None \<Rightarrow> recipes store
               | Some c \<Rightarrow>
                   if c = [] then recipes store
                   else filter (\<lambda>row. rec_cuisine_type row = c) (recipes store))),
            get_db store)"
    using assms(2)
    by (cases cuisine_type) (simp_all add: list_recipes_eq offset_limit_window truthy_def)
qed

theorem list_window_witness:
  "(0::int) \<le> 1 \<and> (0::int) \<le> 5 \<and>
   list_ingredients 0 5 (Some ''spice'') (get_db ex_store) = ([ex_salt], get_db ex_store) \<and>
   list_ingredients 1 5 None (get_db ex_store) = ([ex_sugar], get_db ex_store) \<and>
   list_recipes 1 5 None (get_db ex_store) = ([], get_db ex_store)"
proof -
  have a: "(0::int) \<le> 0" "(0::int) \<le> 1" "(0::int) \<le> 5" by simp_all
  have 1: "list_ingredients 0 5 (Some ''spice'') (get_db ex_store) = ([ex_salt], get_db ex_store)"
    using list_window [OF a(1) a(3), of "Some ''spice''" ex_store None]
    by (simp add: ex_store_def ex_salt_def ex_sugar_def)
  have 2: "list_ingredients 1 5 None (get_db ex_store) = ([ex_sugar], get_db ex_store) \<and>
      list_recipes 1 5 None (get_db ex_store) = ([], get_db ex_store)"
    using list_window [OF a(2) a(3), of None ex_store None]
    by (simp add: ex_store_def)
  from a 1 2 show ?thesis by blast
qed

text \<open>
  Claim C10. Listing the ingredients with the category filter set to the empty string is
  listing them with no category filter, for every skip and limit: all ingredients, in the
  pagination window.
\<close>

theorem list_ingredients_empty_category:
  "list_ingredients skip limit (Some []) db = list_ingredients skip limit None db \<and>
   (0 \<le> skip \<and> 0 \<le> limit \<longrightarrow>
      list_ingredients skip limit (Some []) (get_db store) =
        (take (nat limit) (drop (nat skip) (ingredients store)), get_db store))"
  by (simp add: list_ingredients_def Let_def truthy_def offset_limit_def get_db_def)

theorem list_ingredients_empty_category_witness:
  "(0::int) \<le> 0 \<and> (0::int) \<le> 100 \<and>
   list_ingredients 0 100 (Some []) (get_db ex_store) = list_ingredients 0 100 None (get_db ex_store) \<and>
   list_ingredients 0 100 (Some []) (get_db ex_store) = ([ex_salt, ex_sugar], get_db ex_store)"
proof -
  note t = list_ingredients_empty_category [of 0 100 "get_db ex_store" ex_store]
  from t have 1: "list_ingredients 0 100 (Some []) (get_db ex_store) =
      list_ingredients 0 100 None (get_db ex_store)"
    by (rule conjunct1)
  from t have "0 \<le> (0::int) \<and> 0 \<le> (100::int) \<longrightarrow>
      list_ingredients 0 100 (Some []) (get_db ex_store) =
        (take (nat 100) (drop (nat 0) (ingredients ex_store)), get_db ex_store)"
    by (rule conjunct2)
  then have 2: "list_ingredients 0 100 (Some []) (get_db ex_store) =
      (take (nat 100) (drop (nat 0) (ingredients ex_store)), get_db ex_store)"
    by simp
  have 3: "take (nat 100) (drop (nat 0) (ingredients ex_store)) = [ex_salt, ex_sugar]"
    by (simp add: ex_store_def)
  from 2 have 4: "list_ingredients 0 100 (Some []) (get_db ex_store) =
      ([ex_salt, ex_sugar], get_db ex_store)"
    unfolding 3 .
  from 1 4 show ?thesis by simp
qed

end
